theory Spec2Isabelle
  imports Main
begin

section \<open>Values, requests and results\<close>

text \<open>
  The tool-call handler of \<^verbatim>\<open>server.js\<close> reads two properties of the argument object,
  sends one HTTP request and renders either the parsed response or the caught error as text.

  A property value is \<^verbatim>\<open>undefined\<close> (the key is absent), \<^verbatim>\<open>null\<close>, a boolean or a string:
  the shapes the tool schema and the webhook contract use. Numbers, arrays and nested objects
  are left out. A string is the list of the bytes of its UTF-8 form, so the two pictographs of
  the result texts are three bytes each.
  Logging to the error stream is left out, apart from the property read it makes under
  \<^verbatim>\<open>DEBUG\<close>.
\<close>

datatype js_value = JUndefined | JNull | JBool bool | JStr string

text \<open>Truthiness, as \<^verbatim>\<open>!x\<close>, \<^verbatim>\<open>x ? a : b\<close> and \<^verbatim>\<open>x || y\<close> read it.\<close>

fun truthy :: "js_value \<Rightarrow> bool" where
  "truthy JUndefined = False"
| "truthy JNull = False"
| "truthy (JBool b) = b"
| "truthy (JStr s) = (s \<noteq> [])"

text \<open>The string a template literal puts in place of \<^verbatim>\<open>${x}\<close>.\<close>

fun to_string :: "js_value \<Rightarrow> string" where
  "to_string JUndefined = ''undefined''"
| "to_string JNull = ''null''"
| "to_string (JBool b) = (if b then ''true'' else ''false'')"
| "to_string (JStr s) = s"

type_synonym js_object = "string \<rightharpoonup> js_value"

text \<open>Property read \<^verbatim>\<open>obj.k\<close>: an absent key reads as \<^verbatim>\<open>undefined\<close>.\<close>

definition get :: "js_object \<Rightarrow> string \<Rightarrow> js_value" where
  "get obj k = (case obj k of None \<Rightarrow> JUndefined | Some v \<Rightarrow> v)"

text \<open>
  A thrown error object: its \<^verbatim>\<open>code\<close> (absent on most errors) and its \<^verbatim>\<open>message\<close>.
  What is thrown inside the \<^verbatim>\<open>try\<close> comes from \<^verbatim>\<open>fetch\<close>, from reading the body, from
  \<^verbatim>\<open>new Error\<close> or from the engine (a TypeError), so the message is always a string.
\<close>

record js_error =
  code :: "string option"
  message :: string

definition Error :: "string \<Rightarrow> js_error" where
  "Error msg = \<lparr>code = None, message = msg\<rparr>"

text \<open>
  A tool call: the name and the argument object, which the protocol lets the caller leave out
  (\<open>None\<close>: \<^verbatim>\<open>args\<close> is \<^verbatim>\<open>undefined\<close>).
\<close>

record invocation_request =
  name :: string
  arguments :: "js_object option"

record content_block =
  type :: string
  "text" :: string

text \<open>The error flag is \<open>None\<close> where the returned object has no \<^verbatim>\<open>isError\<close> key.\<close>

record tool_result =
  content :: "content_block list"
  isError :: "bool option"

record outbound_payload =
  image_base64 :: js_value
  prompt :: js_value
  timestamp :: string
  source :: string

record http_request =
  url :: string
  "method" :: string
  headers :: "(string \<times> string) list"
  body :: string
  timeout :: nat

text \<open>
  What \<^verbatim>\<open>response.json()\<close> resolves to: \<^verbatim>\<open>null\<close>, an object, or another JSON value
  (boolean, number, string, array), on which none of the properties the handler reads is defined.
\<close>

datatype json_body = JsonNull | JsonObject js_object | JsonOther

text \<open>
  A response: status line, and what reading the body as text and as JSON gives
  (\<open>Inl\<close> when the read rejects).
\<close>

record http_response =
  status :: nat
  statusText :: string
  text_result :: "js_error + string"
  json_result :: "js_error + json_body"

datatype fetch_outcome = Rejected js_error | Resolved http_response

text \<open>
  The surroundings of one call: the \<^verbatim>\<open>DEBUG\<close> flag, the configured endpoint, the clock
  reading of \<^verbatim>\<open>new Date().toISOString()\<close>, how \<^verbatim>\<open>fetch\<close> settles for a given request and
  after how many milliseconds. The awaited call is taken to settle, by resolving or by
  rejecting.
\<close>

record environment =
  DEBUG :: bool
  N8N_WEBHOOK_URL :: string
  now :: string
  fetch :: "http_request \<Rightarrow> fetch_outcome"
  settles_after :: "http_request \<Rightarrow> nat"

text \<open>The handler either returns a result or throws to the transport.\<close>

datatype handler_outcome = Returned tool_result | Thrown js_error

section \<open>Base64: \<^verbatim>\<open>btoa\<close> and \<^verbatim>\<open>atob\<close>\<close>

text \<open>
  The two platform functions, after the HTML standard: \<^verbatim>\<open>btoa\<close> is base64 encoding with
  padding, \<^verbatim>\<open>atob\<close> is forgiving-base64 decoding and throws (\<open>None\<close>) on failure. The binary
  string between them is a list of byte values.
\<close>

definition b64_alphabet :: string where
  "b64_alphabet = ''ABCDEFGHIJKLMNOPQRSTUVWXYZabcdefghijklmnopqrstuvwxyz0123456789+/''"

definition b64_char :: "nat \<Rightarrow> char" where
  "b64_char n = b64_alphabet ! n"

fun index_of :: "char \<Rightarrow> string \<Rightarrow> nat option" where
  "index_of c [] = None"
| "index_of c (x # xs) = (if c = x then Some 0 else map_option Suc (index_of c xs))"

definition b64_value :: "char \<Rightarrow> nat option" where
  "b64_value c = index_of c b64_alphabet"

text \<open>The 6-bit groups of a byte string, the last group filled with zero bits.\<close>

fun sextets :: "string \<Rightarrow> nat list" where
  "sextets (x # y # z # r) =
     (let a = of_char x; b = of_char y; c = of_char z
      in [a div 4, (a mod 4) * 16 + b div 16, (b mod 16) * 4 + c div 64, c mod 64]) @ sextets r"
| "sextets [x, y] =
     (let a = of_char x; b = of_char y
      in [a div 4, (a mod 4) * 16 + b div 16, (b mod 16) * 4])"
| "sextets [x] = (let a = of_char x in [a div 4, (a mod 4) * 16])"
| "sextets [] = []"

definition btoa :: "string \<Rightarrow> string" where
  "btoa s = map b64_char (sextets s) @ replicate ((3 - length s mod 3) mod 3) (CHR ''='')"

definition ascii_whitespace :: "char \<Rightarrow> bool" where
  "ascii_whitespace c \<longleftrightarrow> c \<in> {CHR 0x09, CHR 0x0A, CHR 0x0C, CHR 0x0D, CHR 0x20}"

text \<open>When the length is a multiple of four, one or two trailing \<^verbatim>\<open>=\<close> are dropped.\<close>

definition remove_padding :: "string \<Rightarrow> string" where
  "remove_padding d =
     (if length d mod 4 = 0 \<and> d \<noteq> [] \<and> last d = CHR ''=''  then
        (if butlast d \<noteq> [] \<and> last (butlast d) = CHR ''='' then butlast (butlast d)
         else butlast d)
      else d)"

text \<open>Bytes from 6-bit groups; the spare bits of a last short group are discarded.\<close>

fun decode_sextets :: "nat list \<Rightarrow> string" where
  "decode_sextets (a # b # c # d # r) =
     [char_of (a * 4 + b div 16), char_of ((b mod 16) * 16 + c div 4), char_of ((c mod 4) * 64 + d)]
       @ decode_sextets r"
| "decode_sextets [a, b, c] = [char_of (a * 4 + b div 16), char_of ((b mod 16) * 16 + c div 4)]"
| "decode_sextets [a, b] = [char_of (a * 4 + b div 16)]"
| "decode_sextets _ = []"

definition atob :: "string \<Rightarrow> string option" where
  "atob data =
     (let d = remove_padding (filter (\<lambda>c. \<not> ascii_whitespace c) data)
      in if length d mod 4 = 1 then None
         else (case those (map b64_value d) of
                 None \<Rightarrow> None
               | Some vs \<Rightarrow> Some (decode_sextets vs)))"

section \<open>The format check\<close>

definition lower_letter :: "char \<Rightarrow> bool" where
  "lower_letter c \<longleftrightarrow> (97::nat) \<le> of_char c \<and> of_char c \<le> (122::nat)"

text \<open>
  \<^verbatim>\<open>str.replace(/^data:image\/[a-z]+;base64,/, '')\<close>: the pattern is anchored at the start,
  and the run of letters is followed by a semicolon, which is no letter, so the only possible
  match takes the longest run of letters.
\<close>

definition remove_data_url_prefix :: "string \<Rightarrow> string" where
  "remove_data_url_prefix str =
     (if take 11 str = ''data:image/'' then
        (let letters = takeWhile lower_letter (drop 11 str);
             rest = dropWhile lower_letter (drop 11 str)
         in if letters \<noteq> [] \<and> take 8 rest = '';base64,'' then drop 8 rest else str)
      else str)"

definition isValidBase64 :: "js_value \<Rightarrow> bool" where
  "isValidBase64 str =
     (case str of
        JStr s \<Rightarrow>
          if s = [] then False
          else (let base64String = remove_data_url_prefix s
                in case atob base64String of
                     None \<Rightarrow> False
                   | Some decoded \<Rightarrow> btoa decoded = base64String)
      | _ \<Rightarrow> False)"

section \<open>The outbound request\<close>

definition hex_digit :: "nat \<Rightarrow> char" where
  "hex_digit n = ''0123456789abcdef'' ! n"

definition json_escape :: "char \<Rightarrow> string" where
  "json_escape c =
     (if c = CHR 0x22 then [CHR 0x5C, CHR 0x22]
      else if c = CHR 0x5C then [CHR 0x5C, CHR 0x5C]
      else if c = CHR 0x08 then [CHR 0x5C, CHR ''b'']
      else if c = CHR 0x0C then [CHR 0x5C, CHR ''f'']
      else if c = CHR 0x0A then [CHR 0x5C, CHR ''n'']
      else if c = CHR 0x0D then [CHR 0x5C, CHR ''r'']
      else if c = CHR 0x09 then [CHR 0x5C, CHR ''t'']
      else if (of_char c :: nat) < 32 then
        [CHR 0x5C, CHR ''u'', CHR ''0'', CHR ''0'',
         hex_digit (of_char c div 16), hex_digit (of_char c mod 16)]
      else [c])"

definition json_string :: "string \<Rightarrow> string" where
  "json_string s = [CHR 0x22] @ concat (map json_escape s) @ [CHR 0x22]"

fun json_of_value :: "js_value \<Rightarrow> string option" where
  "json_of_value JUndefined = None"
| "json_of_value JNull = Some ''null''"
| "json_of_value (JBool b) = Some (if b then ''true'' else ''false'')"
| "json_of_value (JStr s) = Some (json_string s)"

text \<open>One member of an object; a member whose value is \<^verbatim>\<open>undefined\<close> is omitted.\<close>

definition json_member :: "string \<Rightarrow> js_value \<Rightarrow> string list" where
  "json_member k v = (case json_of_value v of None \<Rightarrow> [] | Some j \<Rightarrow> [json_string k @ '':'' @ j])"

fun join_commas :: "string list \<Rightarrow> string" where
  "join_commas [] = []"
| "join_commas [m] = m"
| "join_commas (m # ms) = m @ '','' @ join_commas ms"

definition JSON_stringify :: "outbound_payload \<Rightarrow> string" where
  "JSON_stringify p =
     ''{'' @ join_commas
        (json_member ''image_base64'' (image_base64 p) @ json_member ''prompt'' (prompt p)
         @ json_member ''timestamp'' (JStr (timestamp p)) @ json_member ''source'' (JStr (source p)))
      @ ''}''"

definition requestPayload :: "environment \<Rightarrow> js_object \<Rightarrow> outbound_payload" where
  "requestPayload env args =
     \<lparr>image_base64 = get args ''image_base64'',
      prompt = get args ''prompt'',
      timestamp = now env,
      source = ''claude-desktop-mcp''\<rparr>"

definition fetch_request :: "environment \<Rightarrow> js_object \<Rightarrow> http_request" where
  "fetch_request env args =
     \<lparr>url = N8N_WEBHOOK_URL env,
      method = ''POST'',
      headers = [(''Content-Type'', ''application/json''),
                 (''User-Agent'', ''N8N-Gemini-MCP-Server/1.0.0'')],
      body = JSON_stringify (requestPayload env args),
      timeout = 60000\<rparr>"

section \<open>Translating the response\<close>

definition check_mark :: string where
  "check_mark = [CHR 0xE2, CHR 0x9C, CHR 0x85]"

definition cross_mark :: string where
  "cross_mark = [CHR 0xE2, CHR 0x9D, CHR 0x8C]"

text \<open>Decimal digits of a number, as a template literal prints the status.\<close>

fun show_nat :: "nat \<Rightarrow> string" where
  "show_nat n =
     (if n < 10 then [''0123456789'' ! n] else show_nat (n div 10) @ [''0123456789'' ! (n mod 10)])"

declare show_nat.simps [simp del]

text \<open>\<^verbatim>\<open>response.ok\<close>: the status is in the range 200 to 299.\<close>

definition ok :: "http_response \<Rightarrow> bool" where
  "ok response \<longleftrightarrow> 200 \<le> status response \<and> status response \<le> 299"

text \<open>Property read on the parsed body, once it is known not to be \<^verbatim>\<open>null\<close>.\<close>

fun field :: "json_body \<Rightarrow> string \<Rightarrow> js_value" where
  "field (JsonObject obj) k = get obj k"
| "field _ k = JUndefined"

definition success_text :: "json_body \<Rightarrow> string" where
  "success_text result =
     check_mark @ '' Image generation completed successfully!'' @ [CHR 0x0A, CHR 0x0A]
     @ ''**Generated Image**: ''
     @ (if truthy (field result ''generated_image'') then ''Ready'' else ''Not available'')
     @ [CHR 0x0A] @ ''**Format**: ''
     @ (if truthy (field result ''mime_type'') then to_string (field result ''mime_type'')
        else ''image/png'')
     @ [CHR 0x0A] @ ''**Processed at**: '' @ to_string (field result ''timestamp'')
     @ [CHR 0x0A, CHR 0x0A] @ ''The generated image is available as base64 data.''"

definition failure_text :: "json_body \<Rightarrow> string" where
  "failure_text result =
     cross_mark @ '' Image generation failed: ''
     @ (if truthy (field result ''error'') then to_string (field result ''error'')
        else ''Unknown error occurred'')"

text \<open>
  Lines 153 to 192: what the body of the \<^verbatim>\<open>try\<close> does with a response. \<open>Inl\<close> is a throw.
  Reading \<^verbatim>\<open>result.success\<close> on \<^verbatim>\<open>null\<close> throws a TypeError.
\<close>

definition translate_response :: "http_response \<Rightarrow> js_error + tool_result" where
  "translate_response response =
     (if \<not> ok response then
        (case text_result response of
           Inl e \<Rightarrow> Inl e
         | Inr errorText \<Rightarrow>
             Inl (Error (''N8N webhook failed: '' @ show_nat (status response) @ '' ''
                         @ statusText response)))
      else
        (case json_result response of
           Inl e \<Rightarrow> Inl e
         | Inr JsonNull \<Rightarrow>
             Inl (Error (''Cannot read properties of null (reading '' @ [CHR 0x27] @ ''success''
                         @ [CHR 0x27] @ '')''))
         | Inr result \<Rightarrow>
             (if truthy (field result ''success'') then
                Inr \<lparr>content = [\<lparr>type = ''text'', text = success_text result\<rparr>], isError = None\<rparr>
              else
                Inr \<lparr>content = [\<lparr>type = ''text'', text = failure_text result\<rparr>],
                     isError = Some True\<rparr>)))"

definition try_block :: "environment \<Rightarrow> js_object \<Rightarrow> js_error + tool_result" where
  "try_block env args =
     (case fetch env (fetch_request env args) of
        Rejected e \<Rightarrow> Inl e
      | Resolved response \<Rightarrow> translate_response response)"

section \<open>Translating a caught error\<close>

text \<open>\<^verbatim>\<open>s.includes(sub)\<close>: \<open>sub\<close> occurs in \<open>s\<close> as a contiguous run.\<close>

fun string_includes :: "string \<Rightarrow> string \<Rightarrow> bool" where
  "string_includes [] sub = (sub = [])"
| "string_includes (c # cs) sub = (take (length sub) (c # cs) = sub \<or> string_includes cs sub)"

definition checklist :: string where
  "checklist =
     [CHR 0x0A, CHR 0x0A] @ ''Please check:'' @ [CHR 0x0A] @ ''- N8N instance is running''
     @ [CHR 0x0A] @ ''- Webhook URL is correct''
     @ [CHR 0x0A] @ ''- Google Cloud credentials are configured''
     @ [CHR 0x0A] @ ''- Vertex AI API is enabled''"

definition errorMessage :: "js_error \<Rightarrow> string" where
  "errorMessage error =
     ''Image generation failed: ''
     @ (if code error = Some ''ECONNREFUSED'' then
          ''Could not connect to N8N instance. Please check if N8N is running and the webhook URL is correct.''
        else if code error = Some ''ETIMEDOUT'' then
          ''Request timed out. The image generation process may take longer than expected.''
        else if string_includes (message error) ''webhook failed'' then message error
        else if message error \<noteq> [] then message error
        else ''Unknown error occurred'')"

definition catch_block :: "js_error \<Rightarrow> tool_result" where
  "catch_block error =
     \<lparr>content = [\<lparr>type = ''text'', text = cross_mark @ '' '' @ errorMessage error @ checklist\<rparr>],
      isError = Some True\<rparr>"

section \<open>The handler\<close>

text \<open>
  Reading a property of \<^verbatim>\<open>undefined\<close> throws a TypeError; this is what
  \<^verbatim>\<open>args.image_base64\<close> does when the request has no \<^verbatim>\<open>arguments\<close>.
\<close>

definition undefined_read :: "string \<Rightarrow> js_error" where
  "undefined_read k =
     Error (''Cannot read properties of undefined (reading '' @ [CHR 0x27] @ k @ [CHR 0x27] @ '')'')"

text \<open>
  Lines 92 to 222. The second component lists the requests handed to \<^verbatim>\<open>fetch\<close>, in order.
  Of the logging only line 98 matters: under \<^verbatim>\<open>DEBUG\<close> it reads \<^verbatim>\<open>args.image_base64\<close> before
  the name is checked. Without \<^verbatim>\<open>DEBUG\<close> the first such read is the one of line 108, outside
  the \<^verbatim>\<open>try\<close>.
\<close>

definition handler :: "environment \<Rightarrow> invocation_request \<Rightarrow> handler_outcome \<times> http_request list" where
  "handler env request =
     (if DEBUG env \<and> arguments request = None then
        (Thrown (undefined_read ''image_base64''), [])
      else if name request \<noteq> ''generate_image_with_gemini'' then
        (Thrown (Error (''Unknown tool: '' @ name request)), [])
      else
        (case arguments request of
           None \<Rightarrow> (Thrown (undefined_read ''image_base64''), [])
         | Some args \<Rightarrow>
             if \<not> truthy (get args ''image_base64'') \<or> \<not> truthy (get args ''prompt'') then
               (Returned
                  \<lparr>content = [\<lparr>type = ''text'',
                                text = ''Error: Both image_base64 and prompt are required parameters.''\<rparr>],
                   isError = Some True\<rparr>, [])
             else if \<not> isValidBase64 (get args ''image_base64'') then
               (Returned
                  \<lparr>content = [\<lparr>type = ''text'',
                                text = ''Error: Invalid base64 image format. Please provide a valid base64 encoded image.''\<rparr>],
                   isError = Some True\<rparr>, [])
             else
               (case try_block env args of
                  Inr result \<Rightarrow> (Returned result, [fetch_request env args])
                | Inl error \<Rightarrow> (Returned (catch_block error), [fetch_request env args]))))"

text \<open>
  The handler sets no timer of its own (no abort signal, no race against a clock): the time
  it spends waiting is the time its calls of \<^verbatim>\<open>fetch\<close> take to settle.
\<close>

definition awaited :: "environment \<Rightarrow> invocation_request \<Rightarrow> nat" where
  "awaited env request = sum_list (map (settles_after env) (snd (handler env request)))"

section \<open>The global \<^verbatim>\<open>fetch\<close>\<close>

text \<open>
  The file imports no HTTP client, so \<^verbatim>\<open>fetch\<close> is the global one of Node 18 and later,
  modelled after its documentation. Of its second argument it reads the members of the Fetch
  standard's \<^verbatim>\<open>RequestInit\<close> (here \<^verbatim>\<open>method\<close>, \<^verbatim>\<open>headers\<close>, \<^verbatim>\<open>body\<close>), and \<^verbatim>\<open>timeout\<close> is not
  one of them. When the connection is refused or times out it rejects with a TypeError whose
  message is \<^verbatim>\<open>fetch failed\<close>; the system code (\<^verbatim>\<open>ECONNREFUSED\<close>, \<^verbatim>\<open>ETIMEDOUT\<close>) is on
  \<^verbatim>\<open>error.cause\<close>, and \<^verbatim>\<open>error.code\<close> is undefined.

  An endpoint says, for the URL, method, headers and body it is sent, what happens on the
  network and after how many milliseconds.
\<close>

datatype network_outcome = ConnectionRefused | ConnectionTimedOut | Answered http_response

type_synonym endpoint =
  "string \<Rightarrow> string \<Rightarrow> (string \<times> string) list \<Rightarrow> string \<Rightarrow> network_outcome \<times> nat"

definition fetch_failed :: js_error where
  "fetch_failed = \<lparr>code = None, message = ''fetch failed''\<rparr>"

definition global_fetch :: "endpoint \<Rightarrow> http_request \<Rightarrow> fetch_outcome" where
  "global_fetch server r =
     (case fst (server (url r) (method r) (headers r) (body r)) of
        ConnectionRefused \<Rightarrow> Rejected fetch_failed
      | ConnectionTimedOut \<Rightarrow> Rejected fetch_failed
      | Answered response \<Rightarrow> Resolved response)"

definition global_fetch_time :: "endpoint \<Rightarrow> http_request \<Rightarrow> nat" where
  "global_fetch_time server r = snd (server (url r) (method r) (headers r) (body r))"

definition node_environment :: "bool \<Rightarrow> string \<Rightarrow> string \<Rightarrow> endpoint \<Rightarrow> environment" where
  "node_environment debug configured clock server =
     \<lparr>DEBUG = debug,
      N8N_WEBHOOK_URL = configured,
      now = clock,
      fetch = global_fetch server,
      settles_after = global_fetch_time server\<rparr>"

section \<open>Sample inputs\<close>

text \<open>
  A surrounding in which every \<^verbatim>\<open>fetch\<close> settles the same way and at once, the arguments and
  a request for the known tool with both arguments given, and a response whose body reads as
  empty text and parses to the given value.
\<close>

definition sample_environment :: "fetch_outcome \<Rightarrow> environment" where
  "sample_environment outcome =
     \<lparr>DEBUG = False,
      N8N_WEBHOOK_URL = ''https://your-n8n-instance.com/webhook/gemini-image-gen'',
      now = ''2024-01-01T00:00:00.000Z'',
      fetch = (\<lambda>request. outcome),
      settles_after = (\<lambda>request. 0)\<rparr>"

definition sample_arguments :: "string \<Rightarrow> string \<Rightarrow> js_object" where
  "sample_arguments encoded words =
     [''image_base64'' \<mapsto> JStr encoded, ''prompt'' \<mapsto> JStr words]"

definition sample_request :: "string \<Rightarrow> string \<Rightarrow> invocation_request" where
  "sample_request encoded words =
     \<lparr>name = ''generate_image_with_gemini'',
      arguments = Some (sample_arguments encoded words)\<rparr>"

definition sample_response :: "nat \<Rightarrow> string \<Rightarrow> json_body \<Rightarrow> http_response" where
  "sample_response st reason parsed =
     \<lparr>status = st, statusText = reason, text_result = Inr [], json_result = Inr parsed\<rparr>"

text \<open>
  Three endpoints: one that answers with a success after 63 seconds, one that refuses every
  connection, and one on which the connection attempt times out.
\<close>

definition slow_endpoint :: endpoint where
  "slow_endpoint u m h b =
     (Answered (sample_response 200 ''OK'' (JsonObject [''success'' \<mapsto> JBool True])), 63000)"

definition refusing_endpoint :: endpoint where
  "refusing_endpoint u m h b = (ConnectionRefused, 2)"

definition silent_endpoint :: endpoint where
  "silent_endpoint u m h b = (ConnectionTimedOut, 10000)"

section \<open>Base64 round trip\<close>

lemma b64_alphabet_length: "length b64_alphabet = 64"
  by (simp add: b64_alphabet_def)

lemma b64_alphabet_distinct: "distinct b64_alphabet"
  by (simp add: b64_alphabet_def)

lemma index_of_nth: "distinct xs \<Longrightarrow> n < length xs \<Longrightarrow> index_of (xs ! n) xs = Some n"
proof (induction xs arbitrary: n)
  case Nil
  then show ?case by simp
next
  case (Cons x xs)
  show ?case
  proof (cases n)
    case 0
    then show ?thesis by simp
  next
    case (Suc m)
    with Cons.prems have "m < length xs" "xs ! m \<noteq> x" "distinct xs" by auto
    with Cons.IH [of m] Suc show ?thesis by simp
  qed
qed

lemma b64_value_char: "n < 64 \<Longrightarrow> b64_value (b64_char n) = Some n"
  unfolding b64_value_def b64_char_def
  by (rule index_of_nth) (simp_all add: b64_alphabet_distinct b64_alphabet_length)

lemma those_b64: "\<forall>n\<in>set xs. n < 64 \<Longrightarrow> those (map b64_value (map b64_char xs)) = Some xs"
  by (induction xs) (simp_all add: b64_value_char)

lemma b64_char_in_alphabet: "n < 64 \<Longrightarrow> b64_char n \<in> set b64_alphabet"
  by (simp add: b64_char_def b64_alphabet_length)

lemma alphabet_plain:
  "c \<in> set b64_alphabet \<Longrightarrow> c \<noteq> CHR ''='' \<and> \<not> ascii_whitespace c \<and> c \<noteq> CHR '':''"
  by (auto simp: b64_alphabet_def ascii_whitespace_def)

lemma of_char_less: "of_char c < (256::nat)"
proof -
  have "(of_char c :: nat) mod 256 = of_char c" by (rule of_char_mod_256)
  moreover have "(of_char c :: nat) mod 256 < 256" by simp
  ultimately show ?thesis by simp
qed

lemma sextet_bounds:
  fixes a b c :: nat
  assumes "a < 256" "b < 256" "c < 256"
  shows "a div 4 < 64" "(a mod 4) * 16 + b div 16 < 64" "(b mod 16) * 4 + c div 64 < 64"
    "c mod 64 < 64" "(a mod 4) * 16 < 64" "(b mod 16) * 4 < 64"
  using assms by simp_all

lemma sextets_bound: "\<forall>n\<in>set (sextets s). n < 64"
proof (induction s rule: sextets.induct)
  case (1 x y z r)
  then show ?case
    using sextet_bounds [OF of_char_less [of x] of_char_less [of y] of_char_less [of z]]
    by (simp add: Let_def)
next
  case (2 x y)
  show ?case
    using sextet_bounds [OF of_char_less [of x] of_char_less [of y] of_char_less [of y]]
    by (simp add: Let_def)
next
  case (3 x)
  show ?case
    using sextet_bounds [OF of_char_less [of x] of_char_less [of x] of_char_less [of x]]
    by (simp add: Let_def)
next
  case 4
  show ?case by simp
qed

lemma regroup_first:
  fixes a b :: nat
  assumes "b < 256"
  shows "(a div 4) * 4 + ((a mod 4) * 16 + b div 16) div 16 = a"
proof -
  from assms have "b div 16 < 16" by simp
  then have "((a mod 4) * 16 + b div 16) div 16 = a mod 4" by simp
  then show ?thesis by simp
qed

lemma regroup_second:
  fixes a b c :: nat
  assumes "b < 256" "c < 256"
  shows "(((a mod 4) * 16 + b div 16) mod 16) * 16 + ((b mod 16) * 4 + c div 64) div 4 = b"
proof -
  from assms have "b div 16 < 16" "c div 64 < 4" by simp_all
  then have "((a mod 4) * 16 + b div 16) mod 16 = b div 16"
    and "((b mod 16) * 4 + c div 64) div 4 = b mod 16" by simp_all
  then show ?thesis by simp
qed

lemma regroup_third:
  fixes b c :: nat
  assumes "c < 256"
  shows "(((b mod 16) * 4 + c div 64) mod 4) * 64 + c mod 64 = c"
proof -
  from assms have "c div 64 < 4" by simp
  then have "((b mod 16) * 4 + c div 64) mod 4 = c div 64" by simp
  then show ?thesis by simp
qed

lemma regroup_second_short:
  fixes a b :: nat
  assumes "b < 256"
  shows "(((a mod 4) * 16 + b div 16) mod 16) * 16 + ((b mod 16) * 4) div 4 = b"
proof -
  from assms have "b div 16 < 16" by simp
  then have "((a mod 4) * 16 + b div 16) mod 16 = b div 16" by simp
  then show ?thesis by simp
qed

lemma regroup_first_short:
  fixes a :: nat
  shows "(a div 4) * 4 + ((a mod 4) * 16) div 16 = a"
  by simp

lemma decode_sextets_sextets: "decode_sextets (sextets s) = s"
proof (induction s rule: sextets.induct)
  case (1 x y z r)
  then show ?case
    using regroup_first [OF of_char_less [of y], of "of_char x"]
      regroup_second [OF of_char_less [of y] of_char_less [of z], of "of_char x"]
      regroup_third [OF of_char_less [of z], of "of_char y"]
    by (simp add: Let_def)
next
  case (2 x y)
  show ?case
    using regroup_first [OF of_char_less [of y], of "of_char x"]
      regroup_second_short [OF of_char_less [of y], of "of_char x"]
    by (simp add: Let_def)
next
  case (3 x)
  show ?case
    using regroup_first_short [of "of_char x"] by (simp add: Let_def)
next
  case 4
  show ?case by simp
qed

lemma length_sextets:
  "length (sextets s) + (3 - length s mod 3) mod 3 = 4 * ((length s + 2) div 3)"
proof (induction s rule: sextets.induct)
  case (1 x y z r)
  have "length (x # y # z # r) = length r + 3" by simp
  then have "length (x # y # z # r) mod 3 = length r mod 3"
    and "(length (x # y # z # r) + 2) div 3 = (length r + 2) div 3 + 1"
    by simp_all
  with 1 show ?case by (simp add: Let_def)
qed (simp_all add: Let_def)

lemma length_sextets_mod: "length (sextets s) mod 4 \<noteq> 1"
proof (induction s rule: sextets.induct)
  case (1 x y z r)
  then show ?case by (simp add: Let_def)
qed (simp_all add: Let_def)

lemma remove_padding_core:
  assumes plain: "\<forall>c\<in>set core. c \<noteq> CHR ''=''"
    and k: "k < 3"
    and len: "(length core + k) mod 4 = 0"
  shows "remove_padding (core @ replicate k (CHR ''='')) = core"
proof -
  have last_core: "core \<noteq> [] \<Longrightarrow> last core \<noteq> CHR ''=''"
    using plain last_in_set by blast
  from k consider "k = 0" | "k = 1" | "k = 2" by linarith
  then show ?thesis
  proof cases
    case 1
    then show ?thesis using last_core by (auto simp: remove_padding_def)
  next
    case 2
    then have "replicate k (CHR ''='') = [CHR ''='']" by simp
    then show ?thesis using last_core len 2 by (auto simp: remove_padding_def)
  next
    case 3
    then have "replicate k (CHR ''='') = [CHR ''='', CHR ''='']"
      by (simp add: numeral_2_eq_2)
    then show ?thesis using len 3 by (simp add: remove_padding_def butlast_append)
  qed
qed

lemma btoa_core_plain: "\<forall>c\<in>set (map b64_char (sextets s)). c \<in> set b64_alphabet"
  using sextets_bound [of s] by (auto intro: b64_char_in_alphabet)

lemma btoa_no_whitespace: "filter (\<lambda>c. \<not> ascii_whitespace c) (btoa s) = btoa s"
proof -
  have "\<forall>c\<in>set (btoa s). \<not> ascii_whitespace c"
    using btoa_core_plain [of s] alphabet_plain
    by (auto simp: btoa_def ascii_whitespace_def)
  then show ?thesis by simp
qed

lemma atob_btoa: "atob (btoa s) = Some s"
proof -
  let ?core = "map b64_char (sextets s)"
  let ?k = "(3 - length s mod 3) mod 3"
  have plain: "\<forall>c\<in>set ?core. c \<noteq> CHR ''=''"
    using btoa_core_plain [of s] alphabet_plain by blast
  have len: "(length ?core + ?k) mod 4 = 0"
    using length_sextets [of s] by simp
  have "remove_padding (btoa s) = ?core"
    unfolding btoa_def using plain _ len by (rule remove_padding_core) simp
  moreover have "length ?core mod 4 \<noteq> 1"
    using length_sextets_mod [of s] by simp
  moreover have "those (map b64_value ?core) = Some (sextets s)"
    using sextets_bound [of s] by (rule those_b64)
  ultimately show ?thesis
    by (simp add: atob_def btoa_no_whitespace decode_sextets_sextets)
qed

section \<open>The format check and canonical base64\<close>

lemma semicolon_not_letter: "\<not> lower_letter (CHR '';'')"
  by (simp add: lower_letter_def)

lemma remove_data_url_prefix_match:
  assumes "subtype \<noteq> []" and "\<forall>c\<in>set subtype. lower_letter c"
  shows "remove_data_url_prefix (''data:image/'' @ subtype @ '';base64,'' @ payload) = payload"
  using assms semicolon_not_letter
  by (simp add: remove_data_url_prefix_def Let_def takeWhile_tail dropWhile_append2)

lemma remove_data_url_prefix_no_colon:
  assumes "CHR '':'' \<notin> set s"
  shows "remove_data_url_prefix s = s"
proof -
  have "take 11 s \<noteq> ''data:image/''"
  proof
    assume "take 11 s = ''data:image/''"
    then have "CHR '':'' \<in> set (take 11 s)" by simp
    then have "CHR '':'' \<in> set s" by (rule in_set_takeD)
    with assms show False by simp
  qed
  then show ?thesis by (simp add: remove_data_url_prefix_def)
qed

lemma btoa_no_colon: "CHR '':'' \<notin> set (btoa s)"
proof -
  have "\<forall>c\<in>set (map b64_char (sextets s)). c \<noteq> CHR '':''"
    using btoa_core_plain [of s] alphabet_plain by blast
  then show ?thesis by (auto simp: btoa_def)
qed

text \<open>
  Since \<^verbatim>\<open>atob\<close> inverts \<^verbatim>\<open>btoa\<close>, the check accepts a string exactly when it is not empty
  and what remains after the prefix is the encoding of some byte string.
\<close>

lemma isValidBase64_iff:
  "isValidBase64 (JStr s) \<longleftrightarrow> s \<noteq> [] \<and> (\<exists>bytes. remove_data_url_prefix s = btoa bytes)"
proof (cases "atob (remove_data_url_prefix s)")
  case None
  then have "\<And>bytes. remove_data_url_prefix s \<noteq> btoa bytes"
    using atob_btoa by auto
  with None show ?thesis by (simp add: isValidBase64_def)
next
  case (Some decoded)
  have "(btoa decoded = remove_data_url_prefix s) = (\<exists>bytes. remove_data_url_prefix s = btoa bytes)"
  proof
    assume "btoa decoded = remove_data_url_prefix s"
    then show "\<exists>bytes. remove_data_url_prefix s = btoa bytes" by metis
  next
    assume "\<exists>bytes. remove_data_url_prefix s = btoa bytes"
    then obtain bytes where b: "remove_data_url_prefix s = btoa bytes" ..
    with Some have "decoded = bytes" by (simp add: atob_btoa)
    with b show "btoa decoded = remove_data_url_prefix s" by simp
  qed
  with Some show ?thesis by (simp add: isValidBase64_def)
qed

lemma btoa_empty_iff: "btoa s = [] \<longleftrightarrow> s = []"
  by (cases s rule: sextets.cases) (simp_all add: btoa_def Let_def)

section \<open>The invocation handler\<close>

lemma sample_valid: "isValidBase64 (JStr ''QUJD'')"
  by code_simp

lemma valid_request_sends:
  assumes "name request = ''generate_image_with_gemini''"
    and "arguments request = Some args"
    and "truthy (get args ''image_base64'')"
    and "truthy (get args ''prompt'')"
    and "isValidBase64 (get args ''image_base64'')"
  shows "handler env request =
     (Returned (case try_block env args of
                  Inr result \<Rightarrow> result
                | Inl error \<Rightarrow> catch_block error),
      [fetch_request env args])"
  using assms by (simp add: handler_def split: sum.splits)

text \<open>
  Claim C1 says that a request naming \<^verbatim>\<open>generate_image_with_gemini\<close> always gets exactly one
  tool result and never a throw, and that any other name gets a throw. The code breaks the
  first half on a request for the known tool that has no argument object: \<^verbatim>\<open>args\<close> is
  \<^verbatim>\<open>undefined\<close>, the read \<^verbatim>\<open>args.image_base64\<close> of line 108 (line 98 under \<^verbatim>\<open>DEBUG\<close>) is outside
  the \<^verbatim>\<open>try\<close>, and its TypeError goes to the transport with no tool result.
\<close>

theorem known_tool_without_arguments_throws:
  "handler env \<lparr>name = ''generate_image_with_gemini'', arguments = None\<rparr> =
     (Thrown
        \<lparr>code = None,
         message = ''Cannot read properties of undefined (reading '' @ [CHR 0x27]
                     @ ''image_base64'' @ [CHR 0x27] @ '')''\<rparr>, [])"
  by (simp add: handler_def undefined_read_def Error_def)

theorem known_tool_without_arguments_throws_witness:
  "handler (sample_environment (Rejected (Error ''not reached'')))
     \<lparr>name = ''generate_image_with_gemini'', arguments = None\<rparr> =
     (Thrown
        \<lparr>code = None,
         message = ''Cannot read properties of undefined (reading '' @ [CHR 0x27]
                     @ ''image_base64'' @ [CHR 0x27] @ '')''\<rparr>, [])"
  using known_tool_without_arguments_throws
      [of "sample_environment (Rejected (Error ''not reached''))"]
  by simp

text \<open>
  With an argument object the handler does what C1 says: for the known name exactly one
  result and no throw, for any other name a throw and no result, which is
  \<^verbatim>\<open>Unknown tool: <name>\<close> unless \<^verbatim>\<open>DEBUG\<close> is on and the arguments are missing.
\<close>

lemma one_result_or_fault:
  "(name request = ''generate_image_with_gemini'' \<and> arguments request \<noteq> None \<longrightarrow>
      (\<exists>!result. fst (handler env request) = Returned result)
      \<and> (\<forall>error. fst (handler env request) \<noteq> Thrown error))
   \<and> (name request \<noteq> ''generate_image_with_gemini'' \<longrightarrow>
      (\<exists>error. handler env request = (Thrown error, []))
      \<and> (\<forall>result. fst (handler env request) \<noteq> Returned result))
   \<and> (name request \<noteq> ''generate_image_with_gemini''
        \<and> (\<not> DEBUG env \<or> arguments request \<noteq> None) \<longrightarrow>
      handler env request = (Thrown (Error (''Unknown tool: '' @ name request)), []))"
  by (auto simp: handler_def split: sum.splits option.splits)

text \<open>
  Claim C4 says that for the known tool an absent \<^verbatim>\<open>image_base64\<close> or \<^verbatim>\<open>prompt\<close> is answered
  with the error result \<^verbatim>\<open>Error: Both image_base64 and prompt are required parameters.\<close>
  The code breaks this on a request without an argument object, where both are absent: the
  handler returns no result at all (it throws, as shown for C1), and nothing is handed to
  \<^verbatim>\<open>fetch\<close>.
\<close>

theorem absent_arguments_not_answered:
  "fst (handler env \<lparr>name = ''generate_image_with_gemini'', arguments = None\<rparr>) \<noteq>
     Returned
       \<lparr>content = [\<lparr>type = ''text'',
                     text = ''Error: Both image_base64 and prompt are required parameters.''\<rparr>],
        isError = Some True\<rparr>
   \<and> (\<forall>result. fst (handler env \<lparr>name = ''generate_image_with_gemini'', arguments = None\<rparr>)
          \<noteq> Returned result)
   \<and> snd (handler env \<lparr>name = ''generate_image_with_gemini'', arguments = None\<rparr>) = []"
  by (simp add: handler_def)

theorem absent_arguments_not_answered_witness:
  "fst (handler (sample_environment (Rejected (Error ''not reached'')))
          \<lparr>name = ''generate_image_with_gemini'', arguments = None\<rparr>) \<noteq>
     Returned
       \<lparr>content = [\<lparr>type = ''text'',
                     text = ''Error: Both image_base64 and prompt are required parameters.''\<rparr>],
        isError = Some True\<rparr>
   \<and> snd (handler (sample_environment (Rejected (Error ''not reached'')))
          \<lparr>name = ''generate_image_with_gemini'', arguments = None\<rparr>) = []"
  using absent_arguments_not_answered
      [of "sample_environment (Rejected (Error ''not reached''))"]
  by simp

text \<open>
  With an argument object in which \<^verbatim>\<open>image_base64\<close> or \<^verbatim>\<open>prompt\<close> is absent or the empty
  string, the handler returns exactly that error result and hands nothing to \<^verbatim>\<open>fetch\<close>.
\<close>

lemma missing_parameter_rejected:
  assumes "name request = ''generate_image_with_gemini''"
    and "arguments request = Some args"
    and "args ''image_base64'' = None
       \<or> args ''image_base64'' = Some (JStr [])
       \<or> args ''prompt'' = None
       \<or> args ''prompt'' = Some (JStr [])"
  shows "handler env request =
     (Returned
        \<lparr>content = [\<lparr>type = ''text'',
                      text = ''Error: Both image_base64 and prompt are required parameters.''\<rparr>],
         isError = Some True\<rparr>, [])"
  using assms by (auto simp: handler_def get_def)

text \<open>
  Claim C3 says that a validated invocation makes one POST of the JSON payload with the two
  headers, bounded by a client-side timeout of 60 seconds. The code passes \<^verbatim>\<open>timeout: 60000\<close>
  (commented as a 60 second timeout) to the global \<^verbatim>\<open>fetch\<close>, which does not read it, and sets
  no timer of its own. Against an endpoint that answers after 63 seconds the one request
  carries the option 60000, the handler waits the 63000 milliseconds, and it returns the late
  answer as a success.
\<close>

theorem timeout_option_not_enforced:
  "map timeout
     (snd (handler (node_environment debug configured clock slow_endpoint)
             (sample_request ''QUJD'' ''a red kite''))) = [60000]
   \<and> awaited (node_environment debug configured clock slow_endpoint)
        (sample_request ''QUJD'' ''a red kite'') = 63000
   \<and> fst (handler (node_environment debug configured clock slow_endpoint)
             (sample_request ''QUJD'' ''a red kite'')) =
       Returned
         \<lparr>content = [\<lparr>type = ''text'',
                       text = success_text (JsonObject [''success'' \<mapsto> JBool True])\<rparr>],
          isError = None\<rparr>"
proof -
  let ?env = "node_environment debug configured clock slow_endpoint"
  let ?args = "sample_arguments ''QUJD'' ''a red kite''"
  have sent: "handler ?env (sample_request ''QUJD'' ''a red kite'') =
     (Returned (case try_block ?env ?args of
                  Inr result \<Rightarrow> result
                | Inl error \<Rightarrow> catch_block error),
      [fetch_request ?env ?args])"
    using sample_valid
    by (intro valid_request_sends) (simp_all add: sample_request_def sample_arguments_def get_def)
  have answer: "try_block ?env ?args =
      Inr \<lparr>content = [\<lparr>type = ''text'',
                        text = success_text (JsonObject [''success'' \<mapsto> JBool True])\<rparr>],
           isError = None\<rparr>"
    by (simp add: try_block_def node_environment_def global_fetch_def slow_endpoint_def
        translate_response_def ok_def sample_response_def get_def)
  have wait: "settles_after ?env (fetch_request ?env ?args) = 63000"
    by (simp add: node_environment_def global_fetch_time_def slow_endpoint_def)
  have option: "timeout (fetch_request ?env ?args) = 60000"
    by (simp add: fetch_request_def)
  from sent answer wait option show ?thesis
    by (simp add: awaited_def)
qed

theorem timeout_option_not_enforced_witness:
  "map timeout
     (snd (handler
             (node_environment False ''https://your-n8n-instance.com/webhook/gemini-image-gen''
                ''2024-01-01T00:00:00.000Z'' slow_endpoint)
             (sample_request ''QUJD'' ''a red kite''))) = [60000]
   \<and> awaited
        (node_environment False ''https://your-n8n-instance.com/webhook/gemini-image-gen''
           ''2024-01-01T00:00:00.000Z'' slow_endpoint)
        (sample_request ''QUJD'' ''a red kite'') = 63000
   \<and> (60000::nat) < 63000"
  using timeout_option_not_enforced
      [of False "''https://your-n8n-instance.com/webhook/gemini-image-gen''"
          "''2024-01-01T00:00:00.000Z''"]
  by simp

text \<open>
  The global \<^verbatim>\<open>fetch\<close> settles the same way and after the same time whatever the
  \<^verbatim>\<open>timeout\<close> member is, and the handler waits as long as its one call takes.
\<close>

lemma global_fetch_ignores_timeout:
  "global_fetch server (r\<lparr>timeout := t\<rparr>) = global_fetch server r
   \<and> global_fetch_time server (r\<lparr>timeout := t\<rparr>) = global_fetch_time server r"
  by (simp add: global_fetch_def global_fetch_time_def)

lemma awaited_valid:
  assumes "name request = ''generate_image_with_gemini''"
    and "arguments request = Some args"
    and "truthy (get args ''image_base64'')"
    and "truthy (get args ''prompt'')"
    and "isValidBase64 (get args ''image_base64'')"
  shows "awaited env request = settles_after env (fetch_request env args)"
  using valid_request_sends [OF assms, of env] by (simp add: awaited_def)

text \<open>
  The rest of C3 holds: an invocation that passes validation hands exactly one request to
  \<^verbatim>\<open>fetch\<close>, a POST to the configured endpoint with the headers
  \<^verbatim>\<open>Content-Type: application/json\<close> and \<^verbatim>\<open>User-Agent: N8N-Gemini-MCP-Server/1.0.0\<close>, the
  option \<^verbatim>\<open>timeout: 60000\<close>, and as body the JSON text of the payload made of the two arguments,
  the clock reading and the source tag \<^verbatim>\<open>claude-desktop-mcp\<close>.
\<close>

lemma one_post_per_valid_invocation:
  assumes "name request = ''generate_image_with_gemini''"
    and "arguments request = Some args"
    and "truthy (get args ''image_base64'')"
    and "truthy (get args ''prompt'')"
    and "isValidBase64 (get args ''image_base64'')"
  shows "snd (handler env request) =
     [\<lparr>url = N8N_WEBHOOK_URL env,
       method = ''POST'',
       headers = [(''Content-Type'', ''application/json''),
                  (''User-Agent'', ''N8N-Gemini-MCP-Server/1.0.0'')],
       body = JSON_stringify
                \<lparr>image_base64 = get args ''image_base64'',
                 prompt = get args ''prompt'',
                 timestamp = now env,
                 source = ''claude-desktop-mcp''\<rparr>,
       timeout = 60000\<rparr>]"
  using valid_request_sends [OF assms, of env]
  by (simp add: fetch_request_def requestPayload_def)


text \<open>
  Claim C2, amended. For a non-empty string the format check is exactly: remove the data-URL
  prefix where the pattern matches, then accept if and only if \<^verbatim>\<open>atob\<close> decodes the rest and
  \<^verbatim>\<open>btoa\<close> of the decoded bytes is the rest again. Every non-empty canonical base64 string
  passes, every string whose rest decodes and re-encodes to something else fails, and on
  failure the handler (known tool, prompt given) returns the error result with text
  \<^verbatim>\<open>Error: Invalid base64 image format. Please provide a valid base64 encoded image.\<close>
  and hands nothing to \<^verbatim>\<open>fetch\<close>. The empty string is rejected although it round-trips.
\<close>

theorem format_check_is_round_trip:
  assumes "s \<noteq> []"
  shows "(isValidBase64 (JStr s) \<longleftrightarrow>
            (\<exists>decoded. atob (remove_data_url_prefix s) = Some decoded
                       \<and> btoa decoded = remove_data_url_prefix s))
     \<and> (\<forall>bytes. s = btoa bytes \<longrightarrow> isValidBase64 (JStr s))
     \<and> (\<forall>decoded. atob (remove_data_url_prefix s) = Some decoded
            \<and> btoa decoded \<noteq> remove_data_url_prefix s \<longrightarrow> \<not> isValidBase64 (JStr s))
     \<and> (name request = ''generate_image_with_gemini''
          \<and> arguments request = Some args
          \<and> args ''image_base64'' = Some (JStr s)
          \<and> truthy (get args ''prompt'')
          \<and> \<not> isValidBase64 (JStr s) \<longrightarrow>
          handler env request =
            (Returned
               \<lparr>content = [\<lparr>type = ''text'',
                             text = ''Error: Invalid base64 image format. Please provide a valid base64 encoded image.''\<rparr>],
                isError = Some True\<rparr>, []))"
proof -
  have round_trip: "isValidBase64 (JStr s) \<longleftrightarrow>
      (\<exists>decoded. atob (remove_data_url_prefix s) = Some decoded
                 \<and> btoa decoded = remove_data_url_prefix s)"
    using assms by (auto simp: isValidBase64_def Let_def split: option.splits)
  have canonical: "\<forall>bytes. s = btoa bytes \<longrightarrow> isValidBase64 (JStr s)"
  proof (intro allI impI)
    fix bytes
    assume "s = btoa bytes"
    then have "remove_data_url_prefix s = btoa bytes"
      using btoa_no_colon [of bytes] by (simp add: remove_data_url_prefix_no_colon)
    with assms show "isValidBase64 (JStr s)"
      unfolding isValidBase64_iff by blast
  qed
  have altered: "\<forall>decoded. atob (remove_data_url_prefix s) = Some decoded
      \<and> btoa decoded \<noteq> remove_data_url_prefix s \<longrightarrow> \<not> isValidBase64 (JStr s)"
    using round_trip by auto
  have rejected: "name request = ''generate_image_with_gemini''
      \<and> arguments request = Some args
      \<and> args ''image_base64'' = Some (JStr s)
      \<and> truthy (get args ''prompt'')
      \<and> \<not> isValidBase64 (JStr s) \<longrightarrow>
      handler env request =
        (Returned
           \<lparr>content = [\<lparr>type = ''text'',
                         text = ''Error: Invalid base64 image format. Please provide a valid base64 encoded image.''\<rparr>],
            isError = Some True\<rparr>, [])"
    using assms by (simp add: handler_def get_def)
  from round_trip canonical altered rejected show ?thesis by blast
qed

theorem format_check_is_round_trip_witness:
  "''not-base64!!'' \<noteq> []
   \<and> atob (remove_data_url_prefix ''not-base64!!'') = None
   \<and> \<not> isValidBase64 (JStr ''not-base64!!'')
   \<and> handler (sample_environment (Rejected (Error ''not reached'')))
        (sample_request ''not-base64!!'' ''a red kite'') =
       (Returned
          \<lparr>content = [\<lparr>type = ''text'',
                        text = ''Error: Invalid base64 image format. Please provide a valid base64 encoded image.''\<rparr>],
           isError = Some True\<rparr>, [])"
proof -
  have none: "atob (remove_data_url_prefix ''not-base64!!'') = None"
    by code_simp
  have nonempty: "''not-base64!!'' \<noteq> []"
    by simp
  from format_check_is_round_trip
    [OF nonempty, of "sample_request ''not-base64!!'' ''a red kite''"
       "sample_arguments ''not-base64!!'' ''a red kite''"
       "sample_environment (Rejected (Error ''not reached''))"]
    none
  show ?thesis by (simp add: sample_request_def sample_arguments_def get_def)
qed

theorem format_check_empty_string_counterexample:
  "atob (remove_data_url_prefix []) = Some []
   \<and> btoa [] = remove_data_url_prefix []
   \<and> \<not> isValidBase64 (JStr [])
   \<and> fst (handler (sample_environment (Rejected (Error ''not reached'')))
             (sample_request [] ''a red kite'')) =
       Returned
         \<lparr>content = [\<lparr>type = ''text'',
                       text = ''Error: Both image_base64 and prompt are required parameters.''\<rparr>],
          isError = Some True\<rparr>"
proof -
  have "atob (remove_data_url_prefix []) = Some []" by code_simp
  moreover have "btoa [] = remove_data_url_prefix []" by code_simp
  moreover have "\<not> isValidBase64 (JStr [])" by (simp add: isValidBase64_def)
  ultimately show ?thesis
    by (simp add: handler_def sample_request_def sample_arguments_def sample_environment_def get_def)
qed

lemma letters_lower: "set subtype \<subseteq> set ''abcdefghijklmnopqrstuvwxyz'' \<Longrightarrow> \<forall>c\<in>set subtype. lower_letter c"
  by (auto simp: lower_letter_def)

text \<open>
  Claim C5, amended. When \<^verbatim>\<open>image_base64\<close> is \<^verbatim>\<open>data:image/<subtype>;base64,\<close> followed by
  canonical base64, and the subtype is one or more lowercase letters \<^verbatim>\<open>a\<close> to \<^verbatim>\<open>z\<close>, the
  format check removes the prefix and passes, and (known tool, prompt given) the one request
  handed to \<^verbatim>\<open>fetch\<close> carries the caller's string, prefix included, as \<^verbatim>\<open>image_base64\<close>.
\<close>

theorem data_url_image_accepted:
  assumes "name request = ''generate_image_with_gemini''"
    and "arguments request = Some args"
    and "subtype \<noteq> []"
    and "set subtype \<subseteq> set ''abcdefghijklmnopqrstuvwxyz''"
    and "args ''image_base64'' =
           Some (JStr (''data:image/'' @ subtype @ '';base64,'' @ btoa bytes))"
    and "truthy (get args ''prompt'')"
  shows "remove_data_url_prefix (''data:image/'' @ subtype @ '';base64,'' @ btoa bytes) = btoa bytes
     \<and> isValidBase64 (JStr (''data:image/'' @ subtype @ '';base64,'' @ btoa bytes))
     \<and> snd (handler env request) =
         [\<lparr>url = N8N_WEBHOOK_URL env,
           method = ''POST'',
           headers = [(''Content-Type'', ''application/json''),
                      (''User-Agent'', ''N8N-Gemini-MCP-Server/1.0.0'')],
           body = JSON_stringify
                    \<lparr>image_base64 = JStr (''data:image/'' @ subtype @ '';base64,'' @ btoa bytes),
                     prompt = get args ''prompt'',
                     timestamp = now env,
                     source = ''claude-desktop-mcp''\<rparr>,
           timeout = 60000\<rparr>]"
proof -
  let ?full = "''data:image/'' @ subtype @ '';base64,'' @ btoa bytes"
  have stripped: "remove_data_url_prefix ?full = btoa bytes"
    using assms(3) letters_lower [OF assms(4)] by (rule remove_data_url_prefix_match)
  have arg: "get args ''image_base64'' = JStr ?full"
    using assms(5) by (simp add: get_def)
  have valid: "isValidBase64 (JStr ?full)"
    unfolding isValidBase64_iff using stripped by auto
  have "truthy (JStr ?full)" by simp
  with assms(1,2,6) arg valid
  have "handler env request =
     (Returned (case try_block env args of
                  Inr result \<Rightarrow> result
                | Inl error \<Rightarrow> catch_block error),
      [fetch_request env args])"
    by (intro valid_request_sends) simp_all
  then have "snd (handler env request) = [fetch_request env args]"
    by simp
  with arg stripped valid show ?thesis
    by (simp add: fetch_request_def requestPayload_def)
qed

theorem data_url_image_accepted_witness:
  "name (sample_request ''data:image/png;base64,QUJD'' ''a red kite'') = ''generate_image_with_gemini''
   \<and> btoa ''ABC'' = ''QUJD''
   \<and> remove_data_url_prefix ''data:image/png;base64,QUJD'' = ''QUJD''
   \<and> isValidBase64 (JStr ''data:image/png;base64,QUJD'')
   \<and> snd (handler (sample_environment (Rejected (Error ''fetch failed'')))
             (sample_request ''data:image/png;base64,QUJD'' ''a red kite'')) =
       [\<lparr>url = ''https://your-n8n-instance.com/webhook/gemini-image-gen'',
         method = ''POST'',
         headers = [(''Content-Type'', ''application/json''),
                    (''User-Agent'', ''N8N-Gemini-MCP-Server/1.0.0'')],
         body = JSON_stringify
                  \<lparr>image_base64 = JStr ''data:image/png;base64,QUJD'',
                   prompt = JStr ''a red kite'',
                   timestamp = ''2024-01-01T00:00:00.000Z'',
                   source = ''claude-desktop-mcp''\<rparr>,
         timeout = 60000\<rparr>]"
proof -
  have enc: "btoa ''ABC'' = ''QUJD''" by code_simp
  have "name (sample_request ''data:image/png;base64,QUJD'' ''a red kite'') = ''generate_image_with_gemini''"
    by (simp add: sample_request_def)
  moreover have "arguments (sample_request ''data:image/png;base64,QUJD'' ''a red kite'') =
      Some (sample_arguments ''data:image/png;base64,QUJD'' ''a red kite'')"
    by (simp add: sample_request_def)
  moreover have "''png'' \<noteq> []" by simp
  moreover have "set ''png'' \<subseteq> set ''abcdefghijklmnopqrstuvwxyz''" by simp
  moreover have "sample_arguments ''data:image/png;base64,QUJD'' ''a red kite'' ''image_base64'' =
      Some (JStr (''data:image/'' @ ''png'' @ '';base64,'' @ btoa ''ABC''))"
    by (simp add: sample_arguments_def enc)
  moreover have "truthy (get (sample_arguments ''data:image/png;base64,QUJD'' ''a red kite'') ''prompt'')"
    by (simp add: sample_arguments_def get_def)
  ultimately have "remove_data_url_prefix (''data:image/'' @ ''png'' @ '';base64,'' @ btoa ''ABC'') = btoa ''ABC''
     \<and> isValidBase64 (JStr (''data:image/'' @ ''png'' @ '';base64,'' @ btoa ''ABC''))
     \<and> snd (handler (sample_environment (Rejected (Error ''fetch failed'')))
             (sample_request ''data:image/png;base64,QUJD'' ''a red kite'')) =
         [\<lparr>url = N8N_WEBHOOK_URL (sample_environment (Rejected (Error ''fetch failed''))),
           method = ''POST'',
           headers = [(''Content-Type'', ''application/json''),
                      (''User-Agent'', ''N8N-Gemini-MCP-Server/1.0.0'')],
           body = JSON_stringify
                    \<lparr>image_base64 = JStr (''data:image/'' @ ''png'' @ '';base64,'' @ btoa ''ABC''),
                     prompt = get (sample_arguments ''data:image/png;base64,QUJD'' ''a red kite'') ''prompt'',
                     timestamp = now (sample_environment (Rejected (Error ''fetch failed''))),
                     source = ''claude-desktop-mcp''\<rparr>,
           timeout = 60000\<rparr>]"
    by (rule data_url_image_accepted)
  then show ?thesis
    by (simp add: enc sample_request_def sample_arguments_def sample_environment_def get_def)
qed

theorem data_url_subtype_counterexample:
  "atob ''QUJD'' = Some ''ABC''
   \<and> btoa ''ABC'' = ''QUJD''
   \<and> remove_data_url_prefix ''data:image/svg+xml;base64,QUJD'' = ''data:image/svg+xml;base64,QUJD''
   \<and> \<not> isValidBase64 (JStr ''data:image/svg+xml;base64,QUJD'')
   \<and> handler (sample_environment (Rejected (Error ''not reached'')))
        (sample_request ''data:image/svg+xml;base64,QUJD'' ''a red kite'') =
       (Returned
          \<lparr>content = [\<lparr>type = ''text'',
                        text = ''Error: Invalid base64 image format. Please provide a valid base64 encoded image.''\<rparr>],
           isError = Some True\<rparr>, [])"
proof -
  have "atob ''QUJD'' = Some ''ABC''" by code_simp
  moreover have "btoa ''ABC'' = ''QUJD''" by code_simp
  moreover have "remove_data_url_prefix ''data:image/svg+xml;base64,QUJD'' = ''data:image/svg+xml;base64,QUJD''"
    by code_simp
  moreover have invalid: "\<not> isValidBase64 (JStr ''data:image/svg+xml;base64,QUJD'')"
    by code_simp
  ultimately show ?thesis
    by (simp add: handler_def sample_request_def sample_arguments_def get_def)
qed

text \<open>
  Claim C10. When \<^verbatim>\<open>image_base64\<close> is exactly a recognized data-URL prefix,
  \<^verbatim>\<open>data:image/\<close>, one or more lowercase letters and \<^verbatim>\<open>;base64,\<close> (for example
  \<^verbatim>\<open>data:image/png;base64,\<close>), with nothing after it, the presence check passes (the string
  is not empty), the format check accepts it (what remains after the prefix is the empty
  string, which decodes and re-encodes to itself), and (known tool, prompt given) one request
  is handed to \<^verbatim>\<open>fetch\<close> carrying that prefix-only string as \<^verbatim>\<open>image_base64\<close>.
\<close>

theorem prefix_only_image_accepted:
  assumes "name request = ''generate_image_with_gemini''"
    and "arguments request = Some args"
    and "subtype \<noteq> []"
    and "set subtype \<subseteq> set ''abcdefghijklmnopqrstuvwxyz''"
    and "args ''image_base64'' = Some (JStr (''data:image/'' @ subtype @ '';base64,''))"
    and "truthy (get args ''prompt'')"
  shows "truthy (get args ''image_base64'')
     \<and> remove_data_url_prefix (''data:image/'' @ subtype @ '';base64,'') = []
     \<and> atob [] = Some [] \<and> btoa [] = []
     \<and> isValidBase64 (get args ''image_base64'')
     \<and> snd (handler env request) =
         [\<lparr>url = N8N_WEBHOOK_URL env,
           method = ''POST'',
           headers = [(''Content-Type'', ''application/json''),
                      (''User-Agent'', ''N8N-Gemini-MCP-Server/1.0.0'')],
           body = JSON_stringify
                    \<lparr>image_base64 = JStr (''data:image/'' @ subtype @ '';base64,''),
                     prompt = get args ''prompt'',
                     timestamp = now env,
                     source = ''claude-desktop-mcp''\<rparr>,
           timeout = 60000\<rparr>]"
proof -
  let ?prefix = "''data:image/'' @ subtype @ '';base64,''"
  have arg: "get args ''image_base64'' = JStr ?prefix"
    using assms(5) by (simp add: get_def)
  have "remove_data_url_prefix (''data:image/'' @ subtype @ '';base64,'' @ []) = []"
    using assms(3) letters_lower [OF assms(4)] by (rule remove_data_url_prefix_match)
  then have stripped: "remove_data_url_prefix ?prefix = []"
    by simp
  have dec: "atob [] = Some []" by code_simp
  have enc: "btoa [] = []" by code_simp
  have nonempty: "?prefix \<noteq> []" by simp
  have valid: "isValidBase64 (JStr ?prefix)"
    using nonempty by (simp add: isValidBase64_def stripped dec enc del: append.simps)
  have present: "truthy (JStr ?prefix)" by simp
  have "handler env request =
     (Returned (case try_block env args of
                  Inr result \<Rightarrow> result
                | Inl error \<Rightarrow> catch_block error),
      [fetch_request env args])"
    using assms(1,2,6) arg valid present by (intro valid_request_sends) simp_all
  then have "snd (handler env request) = [fetch_request env args]"
    by simp
  with arg stripped dec enc valid present show ?thesis
    by (simp add: fetch_request_def requestPayload_def)
qed

theorem prefix_only_image_accepted_witness:
  "name (sample_request ''data:image/png;base64,'' ''a red kite'') = ''generate_image_with_gemini''
   \<and> truthy (get (sample_arguments ''data:image/png;base64,'' ''a red kite'') ''prompt'')
   \<and> isValidBase64 (JStr ''data:image/png;base64,'')
   \<and> snd (handler (sample_environment (Rejected (Error ''fetch failed'')))
             (sample_request ''data:image/png;base64,'' ''a red kite'')) =
       [\<lparr>url = ''https://your-n8n-instance.com/webhook/gemini-image-gen'',
         method = ''POST'',
         headers = [(''Content-Type'', ''application/json''),
                    (''User-Agent'', ''N8N-Gemini-MCP-Server/1.0.0'')],
         body = JSON_stringify
                  \<lparr>image_base64 = JStr ''data:image/png;base64,'',
                   prompt = JStr ''a red kite'',
                   timestamp = ''2024-01-01T00:00:00.000Z'',
                   source = ''claude-desktop-mcp''\<rparr>,
         timeout = 60000\<rparr>]"
  using prefix_only_image_accepted
      [of "sample_request ''data:image/png;base64,'' ''a red kite''"
          "sample_arguments ''data:image/png;base64,'' ''a red kite''"
          "''png''"
          "sample_environment (Rejected (Error ''fetch failed''))"]
  by (simp add: sample_request_def sample_arguments_def sample_environment_def get_def)

section \<open>Translation of the webhook's answer\<close>

lemma parsed_object_translated:
  assumes "name request = ''generate_image_with_gemini''"
    and "arguments request = Some args"
    and "truthy (get args ''image_base64'')"
    and "truthy (get args ''prompt'')"
    and "isValidBase64 (get args ''image_base64'')"
    and "fetch env (fetch_request env args) = Resolved response"
    and "200 \<le> status response \<and> status response \<le> 299"
    and "json_result response = Inr (JsonObject obj)"
  shows "fst (handler env request) =
     Returned (if truthy (get obj ''success'')
               then \<lparr>content = [\<lparr>type = ''text'', text = success_text (JsonObject obj)\<rparr>],
                     isError = None\<rparr>
               else \<lparr>content = [\<lparr>type = ''text'', text = failure_text (JsonObject obj)\<rparr>],
                     isError = Some True\<rparr>)"
proof -
  have "try_block env args =
      Inr (if truthy (get obj ''success'')
           then \<lparr>content = [\<lparr>type = ''text'', text = success_text (JsonObject obj)\<rparr>],
                 isError = None\<rparr>
           else \<lparr>content = [\<lparr>type = ''text'', text = failure_text (JsonObject obj)\<rparr>],
                 isError = Some True\<rparr>)"
    using assms(6,7,8) by (simp add: try_block_def translate_response_def ok_def)
  then show ?thesis
    using valid_request_sends [OF assms(1,2,3,4,5), of env] by simp
qed

lemma sample_fetch:
  "fetch (sample_environment outcome) r = outcome"
  by (simp add: sample_environment_def)

lemma sample_request_valid:
  "name (sample_request ''QUJD'' ''a red kite'') = ''generate_image_with_gemini''"
  "arguments (sample_request ''QUJD'' ''a red kite'') = Some (sample_arguments ''QUJD'' ''a red kite'')"
  "truthy (get (sample_arguments ''QUJD'' ''a red kite'') ''image_base64'')"
  "truthy (get (sample_arguments ''QUJD'' ''a red kite'') ''prompt'')"
  "isValidBase64 (get (sample_arguments ''QUJD'' ''a red kite'') ''image_base64'')"
  using sample_valid by (simp_all add: sample_request_def sample_arguments_def get_def)

text \<open>
  Claim C6, amended. When the parsed response is an object whose \<^verbatim>\<open>success\<close> is false or
  absent, the handler returns an error result whose text is the cross-mark pictograph, a space,
  \<^verbatim>\<open>Image generation failed: \<close> and then \<^verbatim>\<open>result.error\<close> when that is a non-empty string,
  \<^verbatim>\<open>Unknown error occurred\<close> when it is absent or the empty string.
\<close>

theorem remote_failure_reported:
  assumes "name request = ''generate_image_with_gemini''"
    and "arguments request = Some args"
    and "truthy (get args ''image_base64'')"
    and "truthy (get args ''prompt'')"
    and "isValidBase64 (get args ''image_base64'')"
    and "fetch env (fetch_request env args) = Resolved response"
    and "200 \<le> status response \<and> status response \<le> 299"
    and "json_result response = Inr (JsonObject obj)"
    and "obj ''success'' = None \<or> obj ''success'' = Some (JBool False)"
  shows "\<exists>clause.
       fst (handler env request) =
         Returned \<lparr>content = [\<lparr>type = ''text'',
                                text = cross_mark @ '' Image generation failed: '' @ clause\<rparr>],
                   isError = Some True\<rparr>
     \<and> (\<forall>reported. obj ''error'' = Some (JStr reported) \<and> reported \<noteq> [] \<longrightarrow> clause = reported)
     \<and> (obj ''error'' = None \<or> obj ''error'' = Some (JStr []) \<longrightarrow>
          clause = ''Unknown error occurred'')"
proof -
  have "\<not> truthy (get obj ''success'')"
    using assms(9) by (auto simp: get_def)
  with parsed_object_translated [OF assms(1-8)]
  have "fst (handler env request) =
      Returned \<lparr>content = [\<lparr>type = ''text'',
                             text = cross_mark @ '' Image generation failed: ''
                               @ (if truthy (get obj ''error'') then to_string (get obj ''error'')
                                  else ''Unknown error occurred'')\<rparr>],
                isError = Some True\<rparr>"
    by (simp add: failure_text_def)
  moreover have "\<forall>reported. obj ''error'' = Some (JStr reported) \<and> reported \<noteq> [] \<longrightarrow>
      (if truthy (get obj ''error'') then to_string (get obj ''error'')
       else ''Unknown error occurred'') = reported"
    by (simp add: get_def)
  moreover have "obj ''error'' = None \<or> obj ''error'' = Some (JStr []) \<longrightarrow>
      (if truthy (get obj ''error'') then to_string (get obj ''error'')
       else ''Unknown error occurred'') = ''Unknown error occurred''"
    by (auto simp: get_def)
  ultimately show ?thesis by blast
qed

theorem remote_failure_reported_witness:
  "fst (handler
          (sample_environment
             (Resolved (sample_response 200 ''OK''
                (JsonObject [''success'' \<mapsto> JBool False, ''error'' \<mapsto> JStr ''quota exceeded'']))))
          (sample_request ''QUJD'' ''a red kite'')) =
     Returned \<lparr>content = [\<lparr>type = ''text'',
                            text = cross_mark @ '' Image generation failed: quota exceeded''\<rparr>],
               isError = Some True\<rparr>"
proof -
  let ?obj = "[''success'' \<mapsto> JBool False, ''error'' \<mapsto> JStr ''quota exceeded'']"
  let ?response = "sample_response 200 ''OK'' (JsonObject ?obj)"
  have "(200::nat) \<le> status ?response \<and> status ?response \<le> 299"
    by (simp add: sample_response_def)
  moreover have "json_result ?response = Inr (JsonObject ?obj)"
    by (simp add: sample_response_def)
  moreover have "?obj ''success'' = None \<or> ?obj ''success'' = Some (JBool False)"
    by simp
  moreover note remote_failure_reported
    [OF sample_request_valid sample_fetch, of ?response ?obj]
  ultimately obtain clause where
    "fst (handler (sample_environment (Resolved ?response)) (sample_request ''QUJD'' ''a red kite'')) =
       Returned \<lparr>content = [\<lparr>type = ''text'',
                              text = cross_mark @ '' Image generation failed: '' @ clause\<rparr>],
                 isError = Some True\<rparr>"
    and "\<forall>reported. ?obj ''error'' = Some (JStr reported) \<and> reported \<noteq> [] \<longrightarrow> clause = reported"
    by blast
  moreover from this(2) have "clause = ''quota exceeded''" by simp
  ultimately show ?thesis by simp
qed

theorem remote_failure_text_counterexample:
  "fst (handler
          (sample_environment
             (Resolved (sample_response 200 ''OK''
                (JsonObject [''success'' \<mapsto> JBool False, ''error'' \<mapsto> JStr ''quota exceeded'']))))
          (sample_request ''QUJD'' ''a red kite'')) \<noteq>
     Returned \<lparr>content = [\<lparr>type = ''text'', text = ''Image generation failed: quota exceeded''\<rparr>],
               isError = Some True\<rparr>
   \<and> fst (handler
          (sample_environment
             (Resolved (sample_response 200 ''OK''
                (JsonObject [''success'' \<mapsto> JBool False, ''error'' \<mapsto> JStr '''']))))
          (sample_request ''QUJD'' ''a red kite'')) =
     Returned \<lparr>content = [\<lparr>type = ''text'',
                            text = cross_mark @ '' Image generation failed: Unknown error occurred''\<rparr>],
               isError = Some True\<rparr>"
proof -
  have a: "fst (handler
          (sample_environment
             (Resolved (sample_response 200 ''OK''
                (JsonObject [''success'' \<mapsto> JBool False, ''error'' \<mapsto> JStr ''quota exceeded'']))))
          (sample_request ''QUJD'' ''a red kite'')) =
     Returned \<lparr>content = [\<lparr>type = ''text'',
                            text = cross_mark @ '' Image generation failed: quota exceeded''\<rparr>],
               isError = Some True\<rparr>"
    using parsed_object_translated [OF sample_request_valid sample_fetch,
        of "sample_response 200 ''OK''
              (JsonObject [''success'' \<mapsto> JBool False, ''error'' \<mapsto> JStr ''quota exceeded''])"
           "[''success'' \<mapsto> JBool False, ''error'' \<mapsto> JStr ''quota exceeded'']"]
    by (simp add: sample_response_def failure_text_def get_def)
  have b: "fst (handler
          (sample_environment
             (Resolved (sample_response 200 ''OK''
                (JsonObject [''success'' \<mapsto> JBool False, ''error'' \<mapsto> JStr '''']))))
          (sample_request ''QUJD'' ''a red kite'')) =
     Returned \<lparr>content = [\<lparr>type = ''text'',
                            text = cross_mark @ '' Image generation failed: Unknown error occurred''\<rparr>],
               isError = Some True\<rparr>"
    using parsed_object_translated [OF sample_request_valid sample_fetch,
        of "sample_response 200 ''OK''
              (JsonObject [''success'' \<mapsto> JBool False, ''error'' \<mapsto> JStr ''''])"
           "[''success'' \<mapsto> JBool False, ''error'' \<mapsto> JStr '''']"]
    by (simp add: sample_response_def failure_text_def get_def)
  show ?thesis
    unfolding a b by (simp add: cross_mark_def)
qed

text \<open>
  Claim C7. When the parsed response is an object whose \<^verbatim>\<open>success\<close> is true, the handler
  returns a result without error flag whose text reports completion, then \<^verbatim>\<open>Ready\<close> when
  \<^verbatim>\<open>generated_image\<close> is truthy and \<^verbatim>\<open>Not available\<close> otherwise, then the MIME type, which is
  \<^verbatim>\<open>image/png\<close> when \<^verbatim>\<open>mime_type\<close> is absent, then the timestamp.
\<close>

theorem remote_success_reported:
  assumes "name request = ''generate_image_with_gemini''"
    and "arguments request = Some args"
    and "truthy (get args ''image_base64'')"
    and "truthy (get args ''prompt'')"
    and "isValidBase64 (get args ''image_base64'')"
    and "fetch env (fetch_request env args) = Resolved response"
    and "200 \<le> status response \<and> status response \<le> 299"
    and "json_result response = Inr (JsonObject obj)"
    and "obj ''success'' = Some (JBool True)"
  shows "fst (handler env request) =
     Returned
       \<lparr>content =
          [\<lparr>type = ''text'',
            text = check_mark @ '' Image generation completed successfully!''
              @ [CHR 0x0A, CHR 0x0A] @ ''**Generated Image**: ''
              @ (if truthy (get obj ''generated_image'') then ''Ready'' else ''Not available'')
              @ [CHR 0x0A] @ ''**Format**: ''
              @ (if obj ''mime_type'' = None then ''image/png''
                 else if truthy (get obj ''mime_type'') then to_string (get obj ''mime_type'')
                 else ''image/png'')
              @ [CHR 0x0A] @ ''**Processed at**: '' @ to_string (get obj ''timestamp'')
              @ [CHR 0x0A, CHR 0x0A] @ ''The generated image is available as base64 data.''\<rparr>],
        isError = None\<rparr>"
proof -
  have "truthy (get obj ''success'')"
    using assms(9) by (simp add: get_def)
  moreover have "obj ''mime_type'' = None \<Longrightarrow> \<not> truthy (get obj ''mime_type'')"
    by (simp add: get_def)
  ultimately show ?thesis
    using parsed_object_translated [OF assms(1-8)]
    by (auto simp: success_text_def)
qed

theorem remote_success_reported_witness:
  "fst (handler
          (sample_environment
             (Resolved (sample_response 200 ''OK''
                (JsonObject [''success'' \<mapsto> JBool True, ''generated_image'' \<mapsto> JStr ''abc'',
                             ''mime_type'' \<mapsto> JStr ''image/png'',
                             ''timestamp'' \<mapsto> JStr ''2024-01-01T00:00:00Z'']))))
          (sample_request ''QUJD'' ''a red kite'')) =
     Returned
       \<lparr>content =
          [\<lparr>type = ''text'',
            text = check_mark @ '' Image generation completed successfully!''
              @ [CHR 0x0A, CHR 0x0A] @ ''**Generated Image**: Ready''
              @ [CHR 0x0A] @ ''**Format**: image/png''
              @ [CHR 0x0A] @ ''**Processed at**: 2024-01-01T00:00:00Z''
              @ [CHR 0x0A, CHR 0x0A] @ ''The generated image is available as base64 data.''\<rparr>],
        isError = None\<rparr>
   \<and> fst (handler
          (sample_environment
             (Resolved (sample_response 200 ''OK'' (JsonObject [''success'' \<mapsto> JBool True]))))
          (sample_request ''QUJD'' ''a red kite'')) =
     Returned
       \<lparr>content =
          [\<lparr>type = ''text'',
            text = check_mark @ '' Image generation completed successfully!''
              @ [CHR 0x0A, CHR 0x0A] @ ''**Generated Image**: Not available''
              @ [CHR 0x0A] @ ''**Format**: image/png''
              @ [CHR 0x0A] @ ''**Processed at**: undefined''
              @ [CHR 0x0A, CHR 0x0A] @ ''The generated image is available as base64 data.''\<rparr>],
        isError = None\<rparr>"
proof -
  let ?full = "[''success'' \<mapsto> JBool True, ''generated_image'' \<mapsto> JStr ''abc'',
                ''mime_type'' \<mapsto> JStr ''image/png'',
                ''timestamp'' \<mapsto> JStr ''2024-01-01T00:00:00Z'']"
  let ?bare = "[''success'' \<mapsto> JBool True]"
  have first: "fst (handler
          (sample_environment (Resolved (sample_response 200 ''OK'' (JsonObject ?full))))
          (sample_request ''QUJD'' ''a red kite'')) =
     Returned
       \<lparr>content =
          [\<lparr>type = ''text'',
            text = check_mark @ '' Image generation completed successfully!''
              @ [CHR 0x0A, CHR 0x0A] @ ''**Generated Image**: Ready''
              @ [CHR 0x0A] @ ''**Format**: image/png''
              @ [CHR 0x0A] @ ''**Processed at**: 2024-01-01T00:00:00Z''
              @ [CHR 0x0A, CHR 0x0A] @ ''The generated image is available as base64 data.''\<rparr>],
        isError = None\<rparr>"
    using remote_success_reported
        [of "sample_request ''QUJD'' ''a red kite''"
            "sample_arguments ''QUJD'' ''a red kite''"
            "sample_environment (Resolved (sample_response 200 ''OK'' (JsonObject ?full)))"
            "sample_response 200 ''OK'' (JsonObject ?full)" ?full]
      sample_request_valid
    by (simp add: sample_fetch sample_response_def get_def)
  have second: "fst (handler
          (sample_environment (Resolved (sample_response 200 ''OK'' (JsonObject ?bare))))
          (sample_request ''QUJD'' ''a red kite'')) =
     Returned
       \<lparr>content =
          [\<lparr>type = ''text'',
            text = check_mark @ '' Image generation completed successfully!''
              @ [CHR 0x0A, CHR 0x0A] @ ''**Generated Image**: Not available''
              @ [CHR 0x0A] @ ''**Format**: image/png''
              @ [CHR 0x0A] @ ''**Processed at**: undefined''
              @ [CHR 0x0A, CHR 0x0A] @ ''The generated image is available as base64 data.''\<rparr>],
        isError = None\<rparr>"
    using remote_success_reported
        [of "sample_request ''QUJD'' ''a red kite''"
            "sample_arguments ''QUJD'' ''a red kite''"
            "sample_environment (Resolved (sample_response 200 ''OK'' (JsonObject ?bare)))"
            "sample_response 200 ''OK'' (JsonObject ?bare)" ?bare]
      sample_request_valid
    by (simp add: sample_fetch sample_response_def get_def)
  from first second show ?thesis by (rule conjI)
qed

section \<open>Translation of thrown failures\<close>

lemma webhook_failed_included:
  "string_includes (''N8N webhook failed: '' @ rest) ''webhook failed''"
  by simp

lemma thrown_error_caught:
  assumes "name request = ''generate_image_with_gemini''"
    and "arguments request = Some args"
    and "truthy (get args ''image_base64'')"
    and "truthy (get args ''prompt'')"
    and "isValidBase64 (get args ''image_base64'')"
    and "try_block env args = Inl error"
  shows "fst (handler env request) = Returned (catch_block error)"
  using valid_request_sends [OF assms(1,2,3,4,5), of env] assms(6) by simp

text \<open>
  Claim C8, amended. When the response status is outside 200 to 299 and its body can be read
  as text, the body of the \<^verbatim>\<open>try\<close> throws an error with message
  \<^verbatim>\<open>N8N webhook failed: <status> <statusText>\<close>, and the handler returns an error result whose
  text carries that message unchanged after \<^verbatim>\<open>Image generation failed: \<close>, followed by the
  checklist. When reading the body itself fails, that failure is the one translated.
\<close>

theorem webhook_failure_passed_through:
  assumes "name request = ''generate_image_with_gemini''"
    and "arguments request = Some args"
    and "truthy (get args ''image_base64'')"
    and "truthy (get args ''prompt'')"
    and "isValidBase64 (get args ''image_base64'')"
    and "fetch env (fetch_request env args) = Resolved response"
    and "\<not> (200 \<le> status response \<and> status response \<le> 299)"
    and "text_result response = Inr errorText"
  shows "try_block env args =
       Inl \<lparr>code = None,
            message = ''N8N webhook failed: '' @ show_nat (status response) @ '' ''
                        @ statusText response\<rparr>
     \<and> fst (handler env request) =
       Returned
         \<lparr>content =
            [\<lparr>type = ''text'',
              text = cross_mark @ '' Image generation failed: ''
                @ (''N8N webhook failed: '' @ show_nat (status response) @ '' ''
                   @ statusText response)
                @ checklist\<rparr>],
          isError = Some True\<rparr>"
proof -
  let ?msg = "''N8N webhook failed: '' @ show_nat (status response) @ '' '' @ statusText response"
  have thrown: "try_block env args = Inl (Error ?msg)"
    using assms(6,7,8) by (simp add: try_block_def translate_response_def ok_def)
  have "string_includes ?msg ''webhook failed''"
    by (rule webhook_failed_included)
  then have "errorMessage (Error ?msg) = ''Image generation failed: '' @ ?msg"
    by (simp add: errorMessage_def Error_def)
  then have "catch_block (Error ?msg) =
      \<lparr>content = [\<lparr>type = ''text'',
                    text = cross_mark @ '' Image generation failed: '' @ ?msg @ checklist\<rparr>],
       isError = Some True\<rparr>"
    by (simp add: catch_block_def)
  with thrown thrown_error_caught [OF assms(1,2,3,4,5) thrown]
  show ?thesis by (simp add: Error_def)
qed

theorem webhook_failure_passed_through_witness:
  "\<not> (200 \<le> status (sample_response 500 ''Internal Server Error'' JsonNull)
        \<and> status (sample_response 500 ''Internal Server Error'' JsonNull) \<le> 299)
   \<and> fst (handler
          (sample_environment (Resolved (sample_response 500 ''Internal Server Error'' JsonNull)))
          (sample_request ''QUJD'' ''a red kite'')) =
       Returned
         \<lparr>content =
            [\<lparr>type = ''text'',
              text = cross_mark
                @ '' Image generation failed: N8N webhook failed: 500 Internal Server Error''
                @ checklist\<rparr>],
          isError = Some True\<rparr>"
proof -
  have digits: "show_nat 500 = ''500''"
    by (simp add: show_nat.simps)
  show ?thesis
    using webhook_failure_passed_through
        [of "sample_request ''QUJD'' ''a red kite''"
            "sample_arguments ''QUJD'' ''a red kite''"
            "sample_environment (Resolved (sample_response 500 ''Internal Server Error'' JsonNull))"
            "sample_response 500 ''Internal Server Error'' JsonNull" "[]"]
      sample_request_valid
    by (simp add: sample_fetch sample_response_def digits)
qed

theorem webhook_failure_unreadable_body_counterexample:
  "\<not> (200 \<le> status \<lparr>status = 500, statusText = ''Internal Server Error'',
                       text_result = Inl (Error ''terminated''), json_result = Inl (Error ''terminated'')\<rparr>
        \<and> status \<lparr>status = 500, statusText = ''Internal Server Error'',
                    text_result = Inl (Error ''terminated''), json_result = Inl (Error ''terminated'')\<rparr> \<le> 299)
   \<and> try_block
        (sample_environment
           (Resolved \<lparr>status = 500, statusText = ''Internal Server Error'',
                      text_result = Inl (Error ''terminated''), json_result = Inl (Error ''terminated'')\<rparr>))
        (sample_arguments ''QUJD'' ''a red kite'') =
       Inl \<lparr>code = None, message = ''terminated''\<rparr>
   \<and> fst (handler
          (sample_environment
             (Resolved \<lparr>status = 500, statusText = ''Internal Server Error'',
                        text_result = Inl (Error ''terminated''), json_result = Inl (Error ''terminated'')\<rparr>))
          (sample_request ''QUJD'' ''a red kite'')) =
       Returned
         \<lparr>content =
            [\<lparr>type = ''text'',
              text = cross_mark @ '' Image generation failed: terminated'' @ checklist\<rparr>],
          isError = Some True\<rparr>"
proof -
  let ?response = "\<lparr>status = 500, statusText = ''Internal Server Error'',
      text_result = Inl (Error ''terminated''), json_result = Inl (Error ''terminated'')\<rparr>"
  have thrown: "try_block (sample_environment (Resolved ?response))
      (sample_arguments ''QUJD'' ''a red kite'') = Inl (Error ''terminated'')"
    by (simp add: try_block_def sample_fetch translate_response_def ok_def)
  have "catch_block (Error ''terminated'') =
      \<lparr>content = [\<lparr>type = ''text'',
                    text = cross_mark @ '' Image generation failed: terminated'' @ checklist\<rparr>],
       isError = Some True\<rparr>"
    by (simp add: catch_block_def errorMessage_def Error_def)
  with thrown thrown_error_caught [OF sample_request_valid thrown]
  show ?thesis by (simp add: Error_def)
qed

text \<open>
  Claim C9 says that every failure thrown in the body of the \<^verbatim>\<open>try\<close> is caught and reported
  as \<^verbatim>\<open>Image generation failed: \<close> followed by a clause for its cause: the connection-refused
  sentence for a refused connection, the timed-out sentence for a timeout, otherwise the
  error's own message. The code selects the two sentences by \<^verbatim>\<open>error.code\<close>, which the global
  \<^verbatim>\<open>fetch\<close> never sets: a refused connection and a timed-out one both arrive as the TypeError
  \<^verbatim>\<open>fetch failed\<close>, and for both the handler reports \<^verbatim>\<open>fetch failed\<close> with the checklist.
\<close>

theorem refused_connection_reported_as_fetch_failed:
  "fst (handler (node_environment debug configured clock refusing_endpoint)
          (sample_request ''QUJD'' ''a red kite'')) =
     Returned
       \<lparr>content =
          [\<lparr>type = ''text'',
            text = cross_mark @ '' Image generation failed: fetch failed''
              @ [CHR 0x0A, CHR 0x0A] @ ''Please check:''
              @ [CHR 0x0A] @ ''- N8N instance is running''
              @ [CHR 0x0A] @ ''- Webhook URL is correct''
              @ [CHR 0x0A] @ ''- Google Cloud credentials are configured''
              @ [CHR 0x0A] @ ''- Vertex AI API is enabled''\<rparr>],
        isError = Some True\<rparr>
   \<and> fst (handler (node_environment debug configured clock silent_endpoint)
          (sample_request ''QUJD'' ''a red kite'')) =
     Returned
       \<lparr>content =
          [\<lparr>type = ''text'',
            text = cross_mark @ '' Image generation failed: fetch failed''
              @ [CHR 0x0A, CHR 0x0A] @ ''Please check:''
              @ [CHR 0x0A] @ ''- N8N instance is running''
              @ [CHR 0x0A] @ ''- Webhook URL is correct''
              @ [CHR 0x0A] @ ''- Google Cloud credentials are configured''
              @ [CHR 0x0A] @ ''- Vertex AI API is enabled''\<rparr>],
        isError = Some True\<rparr>"
proof -
  have reported: "catch_block fetch_failed =
      \<lparr>content =
         [\<lparr>type = ''text'',
           text = cross_mark @ '' Image generation failed: fetch failed''
             @ [CHR 0x0A, CHR 0x0A] @ ''Please check:''
             @ [CHR 0x0A] @ ''- N8N instance is running''
             @ [CHR 0x0A] @ ''- Webhook URL is correct''
             @ [CHR 0x0A] @ ''- Google Cloud credentials are configured''
             @ [CHR 0x0A] @ ''- Vertex AI API is enabled''\<rparr>],
       isError = Some True\<rparr>"
    by (simp add: catch_block_def errorMessage_def fetch_failed_def checklist_def)
  have refused: "try_block (node_environment debug configured clock refusing_endpoint)
      (sample_arguments ''QUJD'' ''a red kite'') = Inl fetch_failed"
    by (simp add: try_block_def node_environment_def global_fetch_def refusing_endpoint_def)
  have silent: "try_block (node_environment debug configured clock silent_endpoint)
      (sample_arguments ''QUJD'' ''a red kite'') = Inl fetch_failed"
    by (simp add: try_block_def node_environment_def global_fetch_def silent_endpoint_def)
  show ?thesis
    using thrown_error_caught [OF sample_request_valid refused]
      thrown_error_caught [OF sample_request_valid silent]
    by (simp add: reported)
qed

theorem refused_connection_reported_as_fetch_failed_witness:
  "fst (handler
          (node_environment False ''https://your-n8n-instance.com/webhook/gemini-image-gen''
             ''2024-01-01T00:00:00.000Z'' refusing_endpoint)
          (sample_request ''QUJD'' ''a red kite'')) =
     Returned
       \<lparr>content =
          [\<lparr>type = ''text'',
            text = cross_mark @ '' Image generation failed: fetch failed''
              @ [CHR 0x0A, CHR 0x0A] @ ''Please check:''
              @ [CHR 0x0A] @ ''- N8N instance is running''
              @ [CHR 0x0A] @ ''- Webhook URL is correct''
              @ [CHR 0x0A] @ ''- Google Cloud credentials are configured''
              @ [CHR 0x0A] @ ''- Vertex AI API is enabled''\<rparr>],
        isError = Some True\<rparr>"
  using refused_connection_reported_as_fetch_failed
      [of False "''https://your-n8n-instance.com/webhook/gemini-image-gen''"
          "''2024-01-01T00:00:00.000Z''"]
  by simp

text \<open>
  What the \<^verbatim>\<open>catch\<close> does with an error, by its \<^verbatim>\<open>code\<close> and \<^verbatim>\<open>message\<close>: the result is an
  error result whose text is the cross-mark pictograph, a space, \<^verbatim>\<open>Image generation failed: \<close>,
  the connection-refused sentence when the code is \<^verbatim>\<open>ECONNREFUSED\<close>, the timed-out sentence
  when it is \<^verbatim>\<open>ETIMEDOUT\<close>, otherwise the message, or \<^verbatim>\<open>Unknown error occurred\<close> when the
  message is empty, and the four-item checklist at the end.
\<close>

lemma thrown_failure_translated:
  assumes "name request = ''generate_image_with_gemini''"
    and "arguments request = Some args"
    and "truthy (get args ''image_base64'')"
    and "truthy (get args ''prompt'')"
    and "isValidBase64 (get args ''image_base64'')"
    and "try_block env args = Inl error"
  shows "fst (handler env request) =
     Returned
       \<lparr>content =
          [\<lparr>type = ''text'',
            text = cross_mark @ '' '' @ ''Image generation failed: ''
              @ (if code error = Some ''ECONNREFUSED'' then
                   ''Could not connect to N8N instance. Please check if N8N is running and the webhook URL is correct.''
                 else if code error = Some ''ETIMEDOUT'' then
                   ''Request timed out. The image generation process may take longer than expected.''
                 else if message error = [] then ''Unknown error occurred''
                 else message error)
              @ [CHR 0x0A, CHR 0x0A] @ ''Please check:''
              @ [CHR 0x0A] @ ''- N8N instance is running''
              @ [CHR 0x0A] @ ''- Webhook URL is correct''
              @ [CHR 0x0A] @ ''- Google Cloud credentials are configured''
              @ [CHR 0x0A] @ ''- Vertex AI API is enabled''\<rparr>],
        isError = Some True\<rparr>"
proof -
  have "\<not> string_includes [] ''webhook failed''" by simp
  then have "errorMessage error =
      ''Image generation failed: ''
      @ (if code error = Some ''ECONNREFUSED'' then
           ''Could not connect to N8N instance. Please check if N8N is running and the webhook URL is correct.''
         else if code error = Some ''ETIMEDOUT'' then
           ''Request timed out. The image generation process may take longer than expected.''
         else if message error = [] then ''Unknown error occurred''
         else message error)"
    unfolding errorMessage_def by (cases "message error = []") simp_all
  then show ?thesis
    using thrown_error_caught [OF assms]
    by (simp add: catch_block_def checklist_def)
qed

end
